theory Spec2Isabelle
  imports Main
begin

section \<open>Data model\<close>

text \<open>
  The tables of the schema that the payment and scanner routes touch. Identifiers are the
  \<open>varchar\<close> keys of the schema; timestamps are points of an abstract clock, and a request
  reads the clock once. Integer and decimal columns are unbounded integers here (prices and
  amounts are whole currency units, quantities are whole numbers); the bounds of the column
  types are out of scope. Columns that no modelled route reads or writes (descriptions,
  creation and update stamps, gate and device details) are left out.
\<close>

type_synonym ident = string
type_synonym timestamp = nat

datatype userRole = Admin | Organiser | Gatekeeper | PlainUser

datatype ticketStatus =
  TicketPending | TicketConfirmed | TicketCancelled | TicketRefunded | TicketScanned

datatype paymentStatus = PaymentPending | PaymentCompleted | PaymentFailed | PaymentRefunded

datatype scanOutcome = ScanSuccess | AlreadyScanned | Invalid | Expired | WrongEvent

record user =
  user_id :: ident
  user_role :: userRole

record event =
  event_id :: ident
  event_name :: string

record ticketTier =
  tier_id :: ident
  tier_eventId :: ident
  tier_name :: string
  tier_price :: int
  tier_quantity :: int
  tier_soldCount :: int
  tier_maxPerOrder :: "int option"
  tier_isActive :: bool

text \<open>One element of the \<open>items\<close> array that the client posts and that is kept in
  \<open>payments.metadata\<close>.\<close>

record cartItem =
  tierId :: ident
  tierName :: string
  price :: int
  quantity :: int

record payment =
  payment_id :: ident
  payment_userId :: ident
  payment_eventId :: ident
  razorpayOrderId :: "string option"
  razorpayPaymentId :: "string option"
  razorpaySignature :: "string option"
  amount :: int
  currency :: string
  payment_status :: paymentStatus
  ticketQuantity :: int
  metadata :: "cartItem list"
  completedAt :: "timestamp option"

record ticket =
  ticket_id :: ident
  ticketTierId :: ident
  ticket_userId :: ident
  paymentId :: "ident option"
  ticketCode :: string
  ticket_status :: ticketStatus
  attendeeName :: "string option"
  scannedAt :: "timestamp option"
  scannedByUserId :: "ident option"
  purchasedAt :: "timestamp option"

record entryScan =
  scan_id :: ident
  scan_ticketId :: ident
  scan_scannedByUserId :: ident
  scan_eventId :: ident
  scanResult :: scanOutcome

text \<open>
  The server state: the tables in insertion order, the counter behind the keys that the
  database generates, and the number of draws taken from the random source so far.
\<close>

record state =
  users :: "user list"
  events :: "event list"
  ticketTiers :: "ticketTier list"
  tickets :: "ticket list"
  payments :: "payment list"
  entryScans :: "entryScan list"
  nextId :: nat
  rngPos :: nat

text \<open>An HTTP reply: the JSON body of a 200, or the status of an error reply.\<close>

datatype 'a response = Json 'a | Unauthorized | Forbidden | NotFound | ServerError

section \<open>Storage layer (server/storage.ts)\<close>

text \<open>
  A generated primary key (\<open>gen_random_uuid()\<close>) is the rendering of the next value of the
  counter, so a generated key is never one generated before.
\<close>

fun decimal :: "nat \<Rightarrow> string" where
  "decimal n =
     (if n < 10 then [''0123456789'' ! n]
      else decimal (n div 10) @ [''0123456789'' ! (n mod 10)])"

declare decimal.simps [simp del]

definition genId :: "nat \<Rightarrow> ident" where
  "genId n = ''id-'' @ decimal n"

text \<open>A select by an equality, destructured as \<open>const [row] = ...\<close>: the first matching
  row, or undefined.\<close>

definition getUser :: "ident \<Rightarrow> state \<Rightarrow> user option" where
  "getUser i s = find (\<lambda>u. user_id u = i) (users s)"

definition getEvent :: "ident \<Rightarrow> state \<Rightarrow> event option" where
  "getEvent i s = find (\<lambda>e. event_id e = i) (events s)"

definition getTicketTier :: "ident \<Rightarrow> state \<Rightarrow> ticketTier option" where
  "getTicketTier i s = find (\<lambda>t. tier_id t = i) (ticketTiers s)"

definition getTicket :: "ident \<Rightarrow> state \<Rightarrow> ticket option" where
  "getTicket i s = find (\<lambda>t. ticket_id t = i) (tickets s)"

definition getTicketByCode :: "string \<Rightarrow> state \<Rightarrow> ticket option" where
  "getTicketByCode code s = find (\<lambda>t. ticketCode t = code) (tickets s)"

definition getPayment :: "ident \<Rightarrow> state \<Rightarrow> payment option" where
  "getPayment i s = find (\<lambda>p. payment_id p = i) (payments s)"


text \<open>
  \<open>updateTicketTierSoldCount\<close>: one UPDATE that adds the increment to \<open>sold_count\<close> of the
  row with the given key, with no other condition, and returns the updated row.
\<close>

definition updateTicketTierSoldCount ::
  "ident \<Rightarrow> int \<Rightarrow> state \<Rightarrow> ticketTier option \<times> state" where
  "updateTicketTierSoldCount i increment s =
     (let s' = s\<lparr>ticketTiers :=
                  map (\<lambda>t. if tier_id t = i
                            then t\<lparr>tier_soldCount := tier_soldCount t + increment\<rparr>
                            else t) (ticketTiers s)\<rparr>
      in (getTicketTier i s', s'))"

text \<open>
  An insert or update that the database rejects throws; the model returns \<open>None\<close>. The
  constraints are the ones the schema declares: the unique index on \<open>ticket_code\<close>, the
  unique columns \<open>razorpay_order_id\<close> and \<open>razorpay_payment_id\<close> (a NULL never clashes), and
  the foreign keys.
\<close>

definition ticketRefsOk :: "ticket \<Rightarrow> state \<Rightarrow> bool" where
  "ticketRefsOk t s =
     (getTicketTier (ticketTierId t) s \<noteq> None \<and>
      getUser (ticket_userId t) s \<noteq> None \<and>
      (case paymentId t of None \<Rightarrow> True | Some p \<Rightarrow> getPayment p s \<noteq> None) \<and>
      (case scannedByUserId t of None \<Rightarrow> True | Some u \<Rightarrow> getUser u s \<noteq> None))"


text \<open>The fields of \<open>Partial<InsertTicket>\<close> that a caller sets; \<open>None\<close> leaves the column
  as it is.\<close>

record ticketPatch =
  set_status :: "ticketStatus option"
  set_scannedAt :: "timestamp option"
  set_scannedByUserId :: "ident option"

definition applyTicketPatch :: "ticketPatch \<Rightarrow> ticket \<Rightarrow> ticket" where
  "applyTicketPatch p t =
     t\<lparr>ticket_status := (case set_status p of None \<Rightarrow> ticket_status t | Some v \<Rightarrow> v),
       scannedAt := (case set_scannedAt p of None \<Rightarrow> scannedAt t | Some v \<Rightarrow> Some v),
       scannedByUserId :=
         (case set_scannedByUserId p of None \<Rightarrow> scannedByUserId t | Some v \<Rightarrow> Some v)\<rparr>"

definition updateTicket :: "ident \<Rightarrow> ticketPatch \<Rightarrow> state \<Rightarrow> (ticket option \<times> state) option" where
  "updateTicket i p s =
     (if list_ex (\<lambda>t. ticket_id t = i) (tickets s) \<and>
         (case set_scannedByUserId p of None \<Rightarrow> False | Some u \<Rightarrow> getUser u s = None)
      then None
      else
        (let s' = s\<lparr>tickets :=
                     map (\<lambda>t. if ticket_id t = i then applyTicketPatch p t else t) (tickets s)\<rparr>
         in Some (getTicket i s', s')))"



record paymentPatch =
  set_razorpayOrderId :: "string option"
  set_razorpayPaymentId :: "string option"
  set_razorpaySignature :: "string option"
  set_paymentStatus :: "paymentStatus option"
  set_completedAt :: "timestamp option"

definition applyPaymentPatch :: "paymentPatch \<Rightarrow> payment \<Rightarrow> payment" where
  "applyPaymentPatch d p =
     p\<lparr>razorpayOrderId :=
         (case set_razorpayOrderId d of None \<Rightarrow> razorpayOrderId p | Some v \<Rightarrow> Some v),
       razorpayPaymentId :=
         (case set_razorpayPaymentId d of None \<Rightarrow> razorpayPaymentId p | Some v \<Rightarrow> Some v),
       razorpaySignature :=
         (case set_razorpaySignature d of None \<Rightarrow> razorpaySignature p | Some v \<Rightarrow> Some v),
       payment_status :=
         (case set_paymentStatus d of None \<Rightarrow> payment_status p | Some v \<Rightarrow> v),
       completedAt := (case set_completedAt d of None \<Rightarrow> completedAt p | Some v \<Rightarrow> Some v)\<rparr>"



definition createEntryScan :: "entryScan \<Rightarrow> state \<Rightarrow> (entryScan \<times> state) option" where
  "createEntryScan data s =
     (if getTicket (scan_ticketId data) s = None then None
      else if getUser (scan_scannedByUserId data) s = None then None
      else if getEvent (scan_eventId data) s = None then None
      else
        (let e = data\<lparr>scan_id := genId (nextId s)\<rparr>
         in Some (e, s\<lparr>entryScans := entryScans s @ [e], nextId := Suc (nextId s)\<rparr>)))"

text \<open>
  \<open>generateTicketCode\<close>: eight characters, each \<open>chars.charAt(Math.floor(Math.random() *
  chars.length))\<close>. The random source is a sequence \<open>rnd\<close> of natural numbers, one per call
  of \<open>Math.random\<close>; the floor of the scaled draw is \<open>rnd k mod length chars\<close>, which ranges
  over the same indices \<open>0 .. length chars - 1\<close>.
\<close>

definition chars :: string where
  "chars = ''ABCDEFGHJKLMNPQRSTUVWXYZ23456789''"

definition charAt :: "string \<Rightarrow> nat \<Rightarrow> string" where
  "charAt str k = (if k < length str then [str ! k] else [])"

fun codeLoop :: "(nat \<Rightarrow> nat) \<Rightarrow> nat \<Rightarrow> nat \<Rightarrow> string \<Rightarrow> string" where
  "codeLoop rnd k 0 code = code"
| "codeLoop rnd k (Suc n) code =
     codeLoop rnd (Suc k) n (code @ charAt chars (rnd k mod length chars))"


section \<open>Routes (server/routes.ts)\<close>

text \<open>\<open>req.user?.claims?.sub\<close> followed by \<open>if (!userId)\<close>: a missing or empty subject is
  rejected.\<close>

definition claimsSub :: "ident option \<Rightarrow> ident option" where
  "claimsSub sub = (case sub of None \<Rightarrow> None | Some u \<Rightarrow> if u = [] then None else Some u)"

text \<open>\<open>requireRole\<close>: \<open>None\<close> lets the request through (\<open>next()\<close>), otherwise the error
  reply.\<close>

definition requireRole :: "userRole list \<Rightarrow> ident option \<Rightarrow> state \<Rightarrow> 'a response option" where
  "requireRole roles sub s =
     (case claimsSub sub of
        None \<Rightarrow> Some Unauthorized
      | Some u \<Rightarrow>
          (case getUser u s of
             None \<Rightarrow> Some Unauthorized
           | Some usr \<Rightarrow> if user_role usr \<in> set roles then None else Some Forbidden))"

subsection \<open>POST /api/payments/create-order\<close>





subsection \<open>POST /api/payments/verify\<close>



text \<open>
  The inner loop \<open>for (let i = 0; i < item.quantity; i++)\<close>, by the number of iterations
  left: each one draws a code, inserts the ticket object \<open>ticketData\<close> and pushes the row. A throw leaves
  the rows written so far (there is no transaction) and is \<open>Inl\<close> of the state reached.
\<close>

definition ticketData :: "timestamp \<Rightarrow> ident \<Rightarrow> ident \<Rightarrow> ident \<Rightarrow> string \<Rightarrow> ticket" where
  "ticketData now userId pid tid code =
     \<lparr>ticket_id = [], ticketTierId = tid, ticket_userId = userId, paymentId = Some pid,
      ticketCode = code, ticket_status = TicketConfirmed, attendeeName = None,
      scannedAt = None, scannedByUserId = None, purchasedAt = Some now\<rparr>"




subsection \<open>POST /api/scans/verify\<close>

record scanBody =
  body_ticketCode :: string
  body_scanEventId :: ident

text \<open>The \<open>message\<close> of the reply: 'Invalid ticket code', 'This ticket is for a different
  event', 'Already scanned at' with the rendering of the ticket's \<open>scannedAt\<close>, 'Ticket has
  been cancelled or refunded', 'Entry approved'.\<close>

datatype scanMessage =
  InvalidTicketCode | DifferentEvent | AlreadyScannedAt "timestamp option"
  | CancelledOrRefunded | EntryApproved

text \<open>The \<open>ticket\<close> object of the reply: the ticket row as read, with \<open>tierName\<close> and, on
  success, \<open>eventName\<close>.\<close>

record ticketView =
  view_ticket :: ticket
  view_tierName :: string
  view_eventName :: "string option"

record scanReply =
  success :: bool
  message :: scanMessage
  reply_scanResult :: scanOutcome
  reply_ticket :: "ticketView option"

definition scansVerify ::
  "timestamp \<Rightarrow> ident option \<Rightarrow> scanBody \<Rightarrow> state \<Rightarrow> scanReply response \<times> state" where
  "scansVerify now sub body s =
     (case claimsSub sub of
        None \<Rightarrow> (Unauthorized, s)
      | Some userId \<Rightarrow>
          (case getTicketByCode (body_ticketCode body) s of
             None \<Rightarrow>
               (Json \<lparr>success = False, message = InvalidTicketCode,
                      reply_scanResult = Invalid, reply_ticket = None\<rparr>, s)
           | Some tkt \<Rightarrow>
               (case (case getTicketTier (ticketTierId tkt) s of
                        None \<Rightarrow> None
                      | Some tier \<Rightarrow>
                          if tier_eventId tier \<noteq> body_scanEventId body then None
                          else Some tier) of
                  None \<Rightarrow>
                    (Json \<lparr>success = False, message = DifferentEvent,
                           reply_scanResult = WrongEvent, reply_ticket = None\<rparr>, s)
                | Some tier \<Rightarrow>
                    if ticket_status tkt = TicketScanned then
                      (Json \<lparr>success = False, message = AlreadyScannedAt (scannedAt tkt),
                             reply_scanResult = AlreadyScanned,
                             reply_ticket =
                               Some \<lparr>view_ticket = tkt, view_tierName = tier_name tier,
                                     view_eventName = None\<rparr>\<rparr>, s)
                    else if ticket_status tkt = TicketCancelled \<or>
                            ticket_status tkt = TicketRefunded then
                      (Json \<lparr>success = False, message = CancelledOrRefunded,
                             reply_scanResult = Expired, reply_ticket = None\<rparr>, s)
                    else
                      (case updateTicket (ticket_id tkt)
                              \<lparr>set_status = Some TicketScanned, set_scannedAt = Some now,
                               set_scannedByUserId = Some userId\<rparr> s of
                         None \<Rightarrow> (ServerError, s)
                       | Some (_, s1) \<Rightarrow>
                           (case createEntryScan
                                   \<lparr>scan_id = [], scan_ticketId = ticket_id tkt,
                                    scan_scannedByUserId = userId,
                                    scan_eventId = body_scanEventId body,
                                    scanResult = ScanSuccess\<rparr> s1 of
                              None \<Rightarrow> (ServerError, s1)
                            | Some (_, s2) \<Rightarrow>
                                (Json \<lparr>success = True, message = EntryApproved,
                                       reply_scanResult = ScanSuccess,
                                       reply_ticket =
                                         Some \<lparr>view_ticket = tkt,
                                               view_tierName = tier_name tier,
                                               view_eventName =
                                                 map_option event_name
                                                   (getEvent (body_scanEventId body) s2)\<rparr>\<rparr>,
                                 s2))))))"

text \<open>The route: \<open>requireRole('admin', 'organiser', 'gatekeeper')\<close>, then the handler.\<close>

definition scansVerifyRoute ::
  "timestamp \<Rightarrow> ident option \<Rightarrow> scanBody \<Rightarrow> state \<Rightarrow> scanReply response \<times> state" where
  "scansVerifyRoute now sub body s =
     (case requireRole [Admin, Organiser, Gatekeeper] sub s of
        Some err \<Rightarrow> (err, s)
      | None \<Rightarrow> scansVerify now sub body s)"

section \<open>Vocabulary of the statements\<close>

text \<open>The code drawn when \<open>k\<close> draws have been taken.\<close>

definition codeAt :: "(nat \<Rightarrow> nat) \<Rightarrow> nat \<Rightarrow> string" where
  "codeAt rnd k = codeLoop rnd k 8 []"

text \<open>
  The rows that \<open>n\<close> units of one cart line become when every insert is accepted, drawing
  from position \<open>k\<close> and taking keys from \<open>j\<close>; and the rows of a whole cart.
\<close>

fun unitsFrom ::
  "(nat \<Rightarrow> nat) \<Rightarrow> timestamp \<Rightarrow> ident \<Rightarrow> ident \<Rightarrow> ident \<Rightarrow> nat \<Rightarrow> nat \<Rightarrow> nat \<Rightarrow> ticket list"
  where
  "unitsFrom rnd now userId pid tid k j 0 = []"
| "unitsFrom rnd now userId pid tid k j (Suc n) =
     (ticketData now userId pid tid (codeAt rnd k))\<lparr>ticket_id := genId j\<rparr> #
     unitsFrom rnd now userId pid tid (k + 8) (Suc j) n"

fun cartUnits ::
  "(nat \<Rightarrow> nat) \<Rightarrow> timestamp \<Rightarrow> ident \<Rightarrow> ident \<Rightarrow> nat \<Rightarrow> nat \<Rightarrow> cartItem list \<Rightarrow> ticket list"
  where
  "cartUnits rnd now userId pid k j [] = []"
| "cartUnits rnd now userId pid k j (item # items) =
     unitsFrom rnd now userId pid (tierId item) k j (nat (quantity item)) @
     cartUnits rnd now userId pid (k + 8 * nat (quantity item)) (j + nat (quantity item)) items"

text \<open>The number of units of a cart, and the tier table after each line of a cart has
  been added to its tier's sold count.\<close>

definition unitCount :: "cartItem list \<Rightarrow> nat" where
  "unitCount items = sum_list (map (\<lambda>item. nat (quantity item)) items)"


text \<open>The codes of the rows are new: pairwise different and none persisted.\<close>

definition freshCodes :: "ticket list \<Rightarrow> state \<Rightarrow> bool" where
  "freshCodes new s =
     (distinct (map ticketCode new) \<and>
      list_all (\<lambda>t. ticketCode t \<notin> set (map ticketCode (tickets s))) new)"








text \<open>The state with the capacity of every tier replaced, by the tier's key.\<close>

definition withCapacities :: "(ident \<Rightarrow> int) \<Rightarrow> state \<Rightarrow> state" where
  "withCapacities cap s =
     s\<lparr>ticketTiers := map (\<lambda>t. t\<lparr>tier_quantity := cap (tier_id t)\<rparr>) (ticketTiers s)\<rparr>"

text \<open>The state with the stored signature of every payment replaced, by the payment's
  key.\<close>

definition withSignatures :: "(ident \<Rightarrow> string option) \<Rightarrow> state \<Rightarrow> state" where
  "withSignatures sig s =
     s\<lparr>payments := map (\<lambda>p. p\<lparr>razorpaySignature := sig (payment_id p)\<rparr>) (payments s)\<rparr>"





section \<open>Example data\<close>

text \<open>
  An event with two tiers, a gatekeeper and a buyer, and the buyer's pending payment for
  two units of the first tier and one of the second.
\<close>

definition exampleCart :: "cartItem list" where
  "exampleCart =
     [\<lparr>tierId = ''tierA'', tierName = ''General'', price = 500, quantity = 2\<rparr>,
      \<lparr>tierId = ''tierB'', tierName = ''VIP'', price = 1200, quantity = 1\<rparr>]"

definition tierA :: ticketTier where
  "tierA =
     \<lparr>tier_id = ''tierA'', tier_eventId = ''E1'', tier_name = ''General'',
      tier_price = 500, tier_quantity = 10, tier_soldCount = 0,
      tier_maxPerOrder = Some 10, tier_isActive = True\<rparr>"

definition tierB :: ticketTier where
  "tierB =
     \<lparr>tier_id = ''tierB'', tier_eventId = ''E1'', tier_name = ''VIP'',
      tier_price = 1200, tier_quantity = 5, tier_soldCount = 0,
      tier_maxPerOrder = Some 10, tier_isActive = True\<rparr>"

definition examplePayment :: payment where
  "examplePayment =
     \<lparr>payment_id = ''pay1'', payment_userId = ''buyer1'', payment_eventId = ''E1'',
      razorpayOrderId = Some ''order_pay1'', razorpayPaymentId = None,
      razorpaySignature = None, amount = 2200, currency = ''INR'',
      payment_status = PaymentPending, ticketQuantity = 3,
      metadata = exampleCart, completedAt = None\<rparr>"

definition gatekeeper :: user where
  "gatekeeper = \<lparr>user_id = ''gate1'', user_role = Gatekeeper\<rparr>"

definition buyer :: user where
  "buyer = \<lparr>user_id = ''buyer1'', user_role = PlainUser\<rparr>"

definition concert :: event where
  "concert = \<lparr>event_id = ''E1'', event_name = ''Concert''\<rparr>"

definition exampleState :: state where
  "exampleState =
     \<lparr>users = [gatekeeper, buyer],
      events = [concert, \<lparr>event_id = ''E2'', event_name = ''Play''\<rparr>],
      ticketTiers = [tierA, tierB],
      tickets = [],
      payments = [examplePayment],
      entryScans = [], nextId = 0, rngPos = 0\<rparr>"




text \<open>A confirmed ticket of the first tier with code AAAAAAAA, and the state that holds
  it.\<close>

definition exampleTicket :: ticket where
  "exampleTicket =
     \<lparr>ticket_id = ''t1'', ticketTierId = ''tierA'', ticket_userId = ''buyer1'',
      paymentId = None, ticketCode = ''AAAAAAAA'', ticket_status = TicketConfirmed,
      attendeeName = None, scannedAt = None, scannedByUserId = None,
      purchasedAt = Some 1\<rparr>"

definition gateState :: state where
  "gateState = exampleState\<lparr>tickets := [exampleTicket]\<rparr>"






text \<open>The example ticket after a scan at time 3 by the gatekeeper, and the state that holds
  it.\<close>

definition scannedTicket :: ticket where
  "scannedTicket =
     exampleTicket\<lparr>ticket_status := TicketScanned, scannedAt := Some 3,
                    scannedByUserId := Some ''gate1''\<rparr>"

definition scannedState :: state where
  "scannedState = exampleState\<lparr>tickets := [scannedTicket]\<rparr>"

text \<open>The example ticket cancelled, and the state that holds it.\<close>

definition cancelledState :: state where
  "cancelledState = exampleState\<lparr>tickets := [exampleTicket\<lparr>ticket_status := TicketCancelled\<rparr>]\<rparr>"

section \<open>Facts about the storage layer\<close>

lemma find_Some_mem: "find P xs = Some x \<Longrightarrow> x \<in> set xs"
  by (induction xs) (auto split: if_splits)

lemma requireRole_pass:
  assumes "u \<noteq> []" and "getUser u s = Some usr" and "user_role usr \<in> set roles"
  shows "requireRole roles (Some u) s = None"
  using assms by (simp add: requireRole_def claimsSub_def)

lemma ticketCode_applyTicketPatch [simp]: "ticketCode (applyTicketPatch p t) = ticketCode t"
  by (simp add: applyTicketPatch_def)

lemma ticket_id_applyTicketPatch [simp]: "ticket_id (applyTicketPatch p t) = ticket_id t"
  by (simp add: applyTicketPatch_def)

lemma find_code_after_patch:
  assumes "find (\<lambda>t. ticketCode t = c) ts = Some tkt"
  shows "find (\<lambda>t. ticketCode t = c)
           (map (\<lambda>t. if ticket_id t = ticket_id tkt then applyTicketPatch p t else t) ts) =
         Some (applyTicketPatch p tkt)"
  using assms by (induction ts) (auto split: if_splits)

lemma find_id_after_patch:
  assumes "tkt \<in> set ts"
  shows "find (\<lambda>t. ticket_id t = ticket_id tkt)
           (map (\<lambda>t. if ticket_id t = ticket_id tkt then applyTicketPatch p t else t) ts) \<noteq> None"
  using assms by (induction ts) (auto split: if_splits)

section \<open>Facts about issuance\<close>

lemma ticketCode_ticketData [simp]: "ticketCode (ticketData now u p t c) = c"
  by (simp add: ticketData_def)



lemma freshCodes_Nil [simp]: "freshCodes [] s"
  by (simp add: freshCodes_def)



lemma getTicketTier_sold [simp]:
  "getTicketTier i (snd (updateTicketTierSoldCount j q s)) = None \<longleftrightarrow> getTicketTier i s = None"
proof -
  have "find (\<lambda>t. tier_id t = i)
          (map (\<lambda>t. if tier_id t = j then t\<lparr>tier_soldCount := tier_soldCount t + q\<rparr> else t) ts)
          = None \<longleftrightarrow> find (\<lambda>t. tier_id t = i) ts = None" for ts
    by (induction ts) auto
  then show ?thesis
    by (simp add: getTicketTier_def updateTicketTierSoldCount_def Let_def)
qed

lemma sold_frame [simp]:
  "users (snd (updateTicketTierSoldCount j q s)) = users s"
  "events (snd (updateTicketTierSoldCount j q s)) = events s"
  "tickets (snd (updateTicketTierSoldCount j q s)) = tickets s"
  "payments (snd (updateTicketTierSoldCount j q s)) = payments s"
  "entryScans (snd (updateTicketTierSoldCount j q s)) = entryScans s"
  "nextId (snd (updateTicketTierSoldCount j q s)) = nextId s"
  "rngPos (snd (updateTicketTierSoldCount j q s)) = rngPos s"
  by (simp_all add: updateTicketTierSoldCount_def Let_def)

lemma length_unitsFrom [simp]: "length (unitsFrom rnd now u p t k j n) = n"
  by (induction n arbitrary: k j) simp_all

lemma length_cartUnits [simp]: "length (cartUnits rnd now u p k j items) = unitCount items"
  by (induction items arbitrary: k j) (simp_all add: unitCount_def)



lemma payment_id_applyPaymentPatch [simp]: "payment_id (applyPaymentPatch d p) = payment_id p"
  by (simp add: applyPaymentPatch_def)

lemma metadata_applyPaymentPatch [simp]: "metadata (applyPaymentPatch d p) = metadata p"
  by (simp add: applyPaymentPatch_def)





















lemma withCapacities_frame [simp]:
  "users (withCapacities cap s) = users s"
  "events (withCapacities cap s) = events s"
  "tickets (withCapacities cap s) = tickets s"
  "payments (withCapacities cap s) = payments s"
  "entryScans (withCapacities cap s) = entryScans s"
  "nextId (withCapacities cap s) = nextId s"
  "rngPos (withCapacities cap s) = rngPos s"
  by (simp_all add: withCapacities_def)

lemma getTicketTier_withCapacities:
  "getTicketTier i (withCapacities cap s) =
     map_option (\<lambda>t. t\<lparr>tier_quantity := cap (tier_id t)\<rparr>) (getTicketTier i s)"
proof -
  have "find (\<lambda>t. tier_id t = i) (map (\<lambda>t. t\<lparr>tier_quantity := cap (tier_id t)\<rparr>) ts) =
          map_option (\<lambda>t. t\<lparr>tier_quantity := cap (tier_id t)\<rparr>) (find (\<lambda>t. tier_id t = i) ts)"
    for ts
    by (induction ts) simp_all
  then show ?thesis
    by (simp add: getTicketTier_def withCapacities_def)
qed

lemma getUser_withCapacities [simp]: "getUser i (withCapacities cap s) = getUser i s"
  by (simp add: getUser_def)

lemma getPayment_withCapacities [simp]: "getPayment i (withCapacities cap s) = getPayment i s"
  by (simp add: getPayment_def)

lemma ticketRefsOk_withCapacities [simp]:
  "ticketRefsOk d (withCapacities cap s) = ticketRefsOk d s"
  by (simp add: ticketRefsOk_def getTicketTier_withCapacities split: option.splits)








lemma withSignatures_frame [simp]:
  "users (withSignatures sig s) = users s"
  "events (withSignatures sig s) = events s"
  "ticketTiers (withSignatures sig s) = ticketTiers s"
  "tickets (withSignatures sig s) = tickets s"
  "entryScans (withSignatures sig s) = entryScans s"
  "nextId (withSignatures sig s) = nextId s"
  "rngPos (withSignatures sig s) = rngPos s"
  by (simp_all add: withSignatures_def)

lemma getPayment_withSignatures:
  "getPayment i (withSignatures sig s) =
     map_option (\<lambda>p. p\<lparr>razorpaySignature := sig (payment_id p)\<rparr>) (getPayment i s)"
proof -
  have "find (\<lambda>p. payment_id p = i) (map (\<lambda>p. p\<lparr>razorpaySignature := sig (payment_id p)\<rparr>) ps) =
          map_option (\<lambda>p. p\<lparr>razorpaySignature := sig (payment_id p)\<rparr>)
            (find (\<lambda>p. payment_id p = i) ps)" for ps
    by (induction ps) simp_all
  then show ?thesis
    by (simp add: getPayment_def withSignatures_def)
qed

lemma ticketRefsOk_withSignatures [simp]:
  "ticketRefsOk d (withSignatures sig s) = ticketRefsOk d s"
  by (simp add: ticketRefsOk_def getPayment_withSignatures getTicketTier_def getUser_def
      split: option.splits)







section \<open>The scanner route\<close>

text \<open>
  C8. A scan of a code that no ticket row carries, by a user the route admits, is answered
  with \<open>success: false\<close>, \<open>scanResult: invalid\<close> and no ticket, and leaves the whole
  state as it was: no ticket row changes and no entry-scan row is written.
\<close>

theorem unknown_code_is_invalid:
  assumes "u \<noteq> []" and "getUser u s = Some usr"
    and "user_role usr \<in> {Admin, Organiser, Gatekeeper}"
    and "code \<notin> set (map ticketCode (tickets s))"
  shows "scansVerifyRoute now (Some u) \<lparr>body_ticketCode = code, body_scanEventId = ev\<rparr> s =
           (Json \<lparr>success = False, message = InvalidTicketCode, reply_scanResult = Invalid,
                  reply_ticket = None\<rparr>, s)"
proof -
  have "requireRole [Admin, Organiser, Gatekeeper] (Some u) s =
          (None :: scanReply response option)"
    using assms(1-3) by (intro requireRole_pass) auto
  moreover have "getTicketByCode code s = None"
    using assms(4) by (auto simp: getTicketByCode_def find_None_iff)
  ultimately show ?thesis
    using assms(1) by (simp add: scansVerifyRoute_def scansVerify_def claimsSub_def)
qed

theorem unknown_code_is_invalid_witness:
  "scansVerifyRoute 5 (Some ''gate1'')
     \<lparr>body_ticketCode = ''ABCD1234'', body_scanEventId = ''E1''\<rparr> gateState =
   (Json \<lparr>success = False, message = InvalidTicketCode, reply_scanResult = Invalid,
          reply_ticket = None\<rparr>, gateState)"
proof -
  have h1: "''gate1'' \<noteq> []"
    by simp
  have h2: "getUser ''gate1'' gateState = Some gatekeeper"
    by code_simp
  have h3: "user_role gatekeeper \<in> {Admin, Organiser, Gatekeeper}"
    by code_simp
  have h4: "''ABCD1234'' \<notin> set (map ticketCode (tickets gateState))"
    by code_simp
  show ?thesis
    by (rule unknown_code_is_invalid[OF h1 h2 h3 h4])
qed

text \<open>
  C5. A ticket whose tier belongs to event \<open>e1\<close>, scanned against another event \<open>e2\<close>,
  is answered with \<open>wrong_event\<close> whatever its status, so also when it has been scanned
  before at \<open>e1\<close>; the answer is never \<open>already_scanned\<close>, and the state is unchanged.
\<close>

theorem wrong_event_before_already_scanned:
  assumes "u \<noteq> []" and "getUser u s = Some usr"
    and "user_role usr \<in> {Admin, Organiser, Gatekeeper}"
    and "getTicketByCode code s = Some tkt"
    and "getTicketTier (ticketTierId tkt) s = Some tier"
    and "tier_eventId tier = e1" and "e2 \<noteq> e1"
  shows "scansVerifyRoute now (Some u) \<lparr>body_ticketCode = code, body_scanEventId = e2\<rparr> s =
           (Json \<lparr>success = False, message = DifferentEvent, reply_scanResult = WrongEvent,
                  reply_ticket = None\<rparr>, s)"
proof -
  have "requireRole [Admin, Organiser, Gatekeeper] (Some u) s =
          (None :: scanReply response option)"
    using assms(1-3) by (intro requireRole_pass) auto
  then show ?thesis
    using assms by (simp add: scansVerifyRoute_def scansVerify_def claimsSub_def)
qed

theorem wrong_event_before_already_scanned_witness:
  "ticket_status scannedTicket = TicketScanned \<and>
   scansVerifyRoute 5 (Some ''gate1'')
     \<lparr>body_ticketCode = ''AAAAAAAA'', body_scanEventId = ''E2''\<rparr> scannedState =
   (Json \<lparr>success = False, message = DifferentEvent, reply_scanResult = WrongEvent,
          reply_ticket = None\<rparr>, scannedState)"
proof -
  have h1: "''gate1'' \<noteq> []"
    by simp
  have h2: "getUser ''gate1'' scannedState = Some gatekeeper"
    by code_simp
  have h3: "user_role gatekeeper \<in> {Admin, Organiser, Gatekeeper}"
    by code_simp
  have h4: "getTicketByCode ''AAAAAAAA'' scannedState = Some scannedTicket"
    by code_simp
  have h5: "getTicketTier (ticketTierId scannedTicket) scannedState =
              Some tierA"
    by code_simp
  have h6: "tier_eventId tierA = ''E1''"
    by code_simp
  have h7: "''E2'' \<noteq> ''E1''"
    by simp
  have "ticket_status scannedTicket = TicketScanned"
    by code_simp
  then show ?thesis
    using wrong_event_before_already_scanned[OF h1 h2 h3 h4 h5 h6 h7] by simp
qed

text \<open>
  C7. A confirmed ticket scanned at its own event: the first scan is answered with
  \<open>success\<close> and leaves the row with status \<open>scanned\<close>, \<open>scannedAt\<close> the time of the scan
  and \<open>scannedByUserId\<close> the scanner; a later scan of the same code at the same event is
  answered with \<open>already_scanned\<close>, carries the \<open>scannedAt\<close> of the first scan, and
  leaves the state as it found it.
\<close>

theorem scan_at_most_once:
  assumes u: "u \<noteq> []" "getUser u s = Some usr"
      "user_role usr \<in> {Admin, Organiser, Gatekeeper}"
    and v: "v \<noteq> []" "getUser v s = Some vsr"
      "user_role vsr \<in> {Admin, Organiser, Gatekeeper}"
    and tkt: "getTicketByCode code s = Some tkt" "ticket_status tkt = TicketConfirmed"
    and tier: "getTicketTier (ticketTierId tkt) s = Some tier" "tier_eventId tier = e"
    and ev: "getEvent e s = Some evt"
  shows "\<exists>r1 s1 r2.
           scansVerifyRoute now1 (Some u) \<lparr>body_ticketCode = code, body_scanEventId = e\<rparr> s =
             (Json r1, s1) \<and>
           success r1 \<and> reply_scanResult r1 = ScanSuccess \<and>
           getTicketByCode code s1 =
             Some (tkt\<lparr>ticket_status := TicketScanned, scannedAt := Some now1,
                        scannedByUserId := Some u\<rparr>) \<and>
           scansVerifyRoute now2 (Some v) \<lparr>body_ticketCode = code, body_scanEventId = e\<rparr> s1 =
             (Json r2, s1) \<and>
           \<not> success r2 \<and> reply_scanResult r2 = AlreadyScanned \<and>
           message r2 = AlreadyScannedAt (Some now1) \<and>
           map_option (\<lambda>w. scannedAt (view_ticket w)) (reply_ticket r2) = Some (Some now1)"
proof -
  let ?body = "\<lparr>body_ticketCode = code, body_scanEventId = e\<rparr>"
  let ?p = "\<lparr>set_status = Some TicketScanned, set_scannedAt = Some now1,
             set_scannedByUserId = Some u\<rparr>"
  let ?t' = "tkt\<lparr>ticket_status := TicketScanned, scannedAt := Some now1,
                  scannedByUserId := Some u\<rparr>"
  define s1 where "s1 = s\<lparr>tickets :=
      map (\<lambda>t. if ticket_id t = ticket_id tkt then applyTicketPatch ?p t else t) (tickets s)\<rparr>"
  define sc where "sc = \<lparr>scan_id = genId (nextId s1), scan_ticketId = ticket_id tkt,
      scan_scannedByUserId = u, scan_eventId = e, scanResult = ScanSuccess\<rparr>"
  define s2 where "s2 = s1\<lparr>entryScans := entryScans s1 @ [sc], nextId := Suc (nextId s1)\<rparr>"
  have patched: "applyTicketPatch ?p tkt = ?t'"
    by (simp add: applyTicketPatch_def)
  have mem: "tkt \<in> set (tickets s)"
    using tkt(1) by (auto simp: getTicketByCode_def dest: find_Some_mem)
  have upd: "updateTicket (ticket_id tkt) ?p s = Some (getTicket (ticket_id tkt) s1, s1)"
    using u(2) by (simp add: updateTicket_def s1_def Let_def)
  have same1: "getUser w s1 = getUser w s" "getEvent w s1 = getEvent w s"
      "getTicketTier w s1 = getTicketTier w s" for w
    by (simp_all add: s1_def getUser_def getEvent_def getTicketTier_def)
  have tk1: "getTicket (ticket_id tkt) s1 \<noteq> None"
    using find_id_after_patch[OF mem] by (simp add: getTicket_def s1_def)
  have ins: "createEntryScan \<lparr>scan_id = [], scan_ticketId = ticket_id tkt,
      scan_scannedByUserId = u, scan_eventId = e, scanResult = ScanSuccess\<rparr> s1 = Some (sc, s2)"
    using tk1 u(2) ev by (simp add: createEntryScan_def same1 s2_def sc_def Let_def)
  have same2: "getUser w s2 = getUser w s" "getEvent w s2 = getEvent w s"
      "getTicketTier w s2 = getTicketTier w s" for w
    by (simp_all add: s2_def s1_def getUser_def getEvent_def getTicketTier_def)
  have code2: "getTicketByCode code s2 = Some ?t'"
    using find_code_after_patch[of code "tickets s" tkt ?p] tkt(1)
    by (simp add: getTicketByCode_def s2_def s1_def patched)
  have passU: "requireRole [Admin, Organiser, Gatekeeper] (Some u) s =
      (None :: scanReply response option)"
    using u by (intro requireRole_pass) auto
  have passV: "requireRole [Admin, Organiser, Gatekeeper] (Some v) s2 =
      (None :: scanReply response option)"
    using v by (intro requireRole_pass) (auto simp: same2)
  let ?r1 = "\<lparr>success = True, message = EntryApproved, reply_scanResult = ScanSuccess,
      reply_ticket = Some \<lparr>view_ticket = tkt, view_tierName = tier_name tier,
        view_eventName = map_option event_name (getEvent e s2)\<rparr>\<rparr>"
  have first: "scansVerifyRoute now1 (Some u) ?body s = (Json ?r1, s2)"
    using passU u(1) tkt tier upd ins
    by (simp add: scansVerifyRoute_def scansVerify_def claimsSub_def)
  let ?r2 = "\<lparr>success = False, message = AlreadyScannedAt (Some now1),
      reply_scanResult = AlreadyScanned,
      reply_ticket = Some \<lparr>view_ticket = ?t', view_tierName = tier_name tier,
        view_eventName = None\<rparr>\<rparr>"
  have second: "scansVerifyRoute now2 (Some v) ?body s2 = (Json ?r2, s2)"
    using passV v(1) code2 tier
    by (simp add: scansVerifyRoute_def scansVerify_def claimsSub_def same2)
  show ?thesis
    using first second code2 by simp
qed

theorem scan_at_most_once_witness:
  "\<exists>r1 s1 r2.
     scansVerifyRoute 3 (Some ''gate1'')
       \<lparr>body_ticketCode = ''AAAAAAAA'', body_scanEventId = ''E1''\<rparr> gateState = (Json r1, s1) \<and>
     success r1 \<and> reply_scanResult r1 = ScanSuccess \<and>
     getTicketByCode ''AAAAAAAA'' s1 =
       Some (exampleTicket\<lparr>ticket_status := TicketScanned, scannedAt := Some 3,
                           scannedByUserId := Some ''gate1''\<rparr>) \<and>
     scansVerifyRoute 8 (Some ''gate1'')
       \<lparr>body_ticketCode = ''AAAAAAAA'', body_scanEventId = ''E1''\<rparr> s1 = (Json r2, s1) \<and>
     \<not> success r2 \<and> reply_scanResult r2 = AlreadyScanned \<and>
     message r2 = AlreadyScannedAt (Some 3) \<and>
     map_option (\<lambda>w. scannedAt (view_ticket w)) (reply_ticket r2) = Some (Some 3)"
proof -
  have h1: "''gate1'' \<noteq> []"
    by simp
  have h2: "getUser ''gate1'' gateState = Some gatekeeper"
    by code_simp
  have h3: "user_role gatekeeper \<in> {Admin, Organiser, Gatekeeper}"
    by code_simp
  have h4: "getTicketByCode ''AAAAAAAA'' gateState = Some exampleTicket"
    by code_simp
  have h5: "ticket_status exampleTicket = TicketConfirmed"
    by code_simp
  have h6: "getTicketTier (ticketTierId exampleTicket) gateState =
              Some tierA"
    by code_simp
  have h7: "tier_eventId tierA = ''E1''"
    by code_simp
  have h8: "getEvent ''E1'' gateState = Some concert"
    by code_simp
  show ?thesis
    by (rule scan_at_most_once[OF h1 h2 h3 h1 h2 h3 h4 h5 h6 h7 h8])
qed

text \<open>
  C4. The route at three scans that resolve to a ticket and are rejected. A confirmed
  ticket of event E1 scanned at E2 is answered with \<open>wrong_event\<close>, a ticket already
  scanned is answered with \<open>already_scanned\<close>, a cancelled ticket is answered with
  \<open>expired\<close>; each time the state after the request is the state before it, with an
  empty entry-scan table. Only the success branch reaches \<open>createEntryScan\<close>: the
  confirmed ticket scanned at its own event E1 leaves one row, with outcome \<open>success\<close>,
  the scanner and the event.
\<close>

theorem rejected_scans_write_no_entry_scan:
  "scansVerifyRoute 5 (Some ''gate1'')
     \<lparr>body_ticketCode = ''AAAAAAAA'', body_scanEventId = ''E2''\<rparr> gateState =
   (Json \<lparr>success = False, message = DifferentEvent, reply_scanResult = WrongEvent,
          reply_ticket = None\<rparr>, gateState) \<and>
   scansVerifyRoute 5 (Some ''gate1'')
     \<lparr>body_ticketCode = ''AAAAAAAA'', body_scanEventId = ''E1''\<rparr> scannedState =
   (Json \<lparr>success = False, message = AlreadyScannedAt (Some 3),
          reply_scanResult = AlreadyScanned,
          reply_ticket = Some \<lparr>view_ticket = scannedTicket, view_tierName = ''General'',
                               view_eventName = None\<rparr>\<rparr>, scannedState) \<and>
   scansVerifyRoute 5 (Some ''gate1'')
     \<lparr>body_ticketCode = ''AAAAAAAA'', body_scanEventId = ''E1''\<rparr> cancelledState =
   (Json \<lparr>success = False, message = CancelledOrRefunded, reply_scanResult = Expired,
          reply_ticket = None\<rparr>, cancelledState) \<and>
   entryScans gateState = [] \<and> entryScans scannedState = [] \<and>
   entryScans cancelledState = [] \<and>
   entryScans (snd (scansVerifyRoute 5 (Some ''gate1'')
     \<lparr>body_ticketCode = ''AAAAAAAA'', body_scanEventId = ''E1''\<rparr> gateState)) =
   [\<lparr>scan_id = ''id-0'', scan_ticketId = ''t1'', scan_scannedByUserId = ''gate1'',
     scan_eventId = ''E1'', scanResult = ScanSuccess\<rparr>]"
  by code_simp

section \<open>The payment verification route\<close>















section \<open>The order creation route\<close>



end
